theory Spec2Isabelle
  imports Complex_Main
begin

section \<open>Handlers, contexts and outcomes\<close>

text \<open>
  A Go handler has type \<^verbatim>\<open>func(ctx context.Context) (any, error)\<close>. It may read and write
  variables it has captured, read clocks, and panic. The embedding threads an explicit world
  state \<open>'s\<close> through every call: a handler maps a context and a world to a completion
  (a returned pair, or a panic) and the world it leaves behind.

  The pair \<^verbatim>\<open>(any, error)\<close> is a pair of options, \<open>None\<close> standing for \<^verbatim>\<open>nil\<close>.
  Errors are compared by identity in the source (\<^verbatim>\<open>err != ErrRateLimitExceeded\<close>), so they
  form a datatype: the two context errors, the three sentinels of the policies, the error
  the earlier \<^verbatim>\<open>Retry\<close> makes when its loop runs out, and the errors of wrapped
  operations, told apart by a tag.
\<close>

datatype error =
    Canceled
  | DeadlineExceeded
  | ErrCircuitOpen
  | ErrCircuitHalfOpenBusy
  | ErrRateLimitExceeded
  | ErrMaxAttemptsReached
  | OpError nat

datatype 'a completion = Returns 'a | Panics

type_synonym 'r outcome = "'r option \<times> error option"

text \<open>
  A \<^verbatim>\<open>context.Context\<close> is an object whose method \<^verbatim>\<open>Err()\<close> reads mutable state: it is
  \<^verbatim>\<open>nil\<close> until the context is cancelled or its deadline passes. The embedding keeps the
  method, as a function of the world.
\<close>

record 's Context =
  ctxErr :: "'s \<Rightarrow> error option"

type_synonym ('r, 's) Handler = "'s Context \<Rightarrow> 's \<Rightarrow> 'r outcome completion \<times> 's"

text \<open>
  \<^verbatim>\<open>time.Duration\<close> is a signed 64-bit count of nanoseconds; \<^verbatim>\<open>time.Time\<close> is an instant,
  here the number of nanoseconds since the zero \<^verbatim>\<open>Time\<close>. Go's signed arithmetic wraps
  around silently, \<^verbatim>\<open>Time.Sub\<close> saturates, and \<^verbatim>\<open>/\<close> truncates towards zero.
\<close>

definition Nanosecond :: int where "Nanosecond = 1"
definition Millisecond :: int where "Millisecond = 1000000"
definition Second :: int where "Second = 1000000000"

definition minDuration :: int where "minDuration = - (2 ^ 63)"
definition maxDuration :: int where "maxDuration = 2 ^ 63 - 1"

definition wrap64 :: "int \<Rightarrow> int" where
  "wrap64 x = (x + 2 ^ 63) mod 2 ^ 64 - 2 ^ 63"

definition quo :: "int \<Rightarrow> int \<Rightarrow> int" where
  "quo a b = (if (a < 0) = (b < 0) then \<bar>a\<bar> div \<bar>b\<bar> else - (\<bar>a\<bar> div \<bar>b\<bar>))"

definition time_Sub :: "int \<Rightarrow> int \<Rightarrow> int" where
  "time_Sub t u =
     (let d = t - u in
      if d < minDuration then minDuration
      else if maxDuration < d then maxDuration
      else d)"

section \<open>Circuit breaker (policies/circuit\_breaker.go)\<close>

datatype CircuitBreakerState = CircuitClosed | CircuitOpen | CircuitHalfOpen

text \<open>
  The function-valued fields of the options may be \<^verbatim>\<open>nil\<close>; calling a \<^verbatim>\<open>nil\<close> function
  panics. \<^verbatim>\<open>OnStateChange\<close> runs user code on the world; \<^verbatim>\<open>Now\<close> reads a clock from it.
\<close>

record 's CircuitBreakerOptions =
  FailureThreshold :: int
  SuccessThreshold :: int
  OpenTimeout :: int
  ShouldTrip :: "(error option \<Rightarrow> bool) option"
  OnStateChange :: "(CircuitBreakerState \<Rightarrow> CircuitBreakerState \<Rightarrow> 's \<Rightarrow> 's) option"
  Now :: "('s \<Rightarrow> int) option"

definition DefaultCircuitBreakerOptions :: "'s CircuitBreakerOptions" where
  "DefaultCircuitBreakerOptions =
     \<lparr>FailureThreshold = 5, SuccessThreshold = 1, OpenTimeout = 30 * Second,
      ShouldTrip = None, OnStateChange = None, Now = None\<rparr>"

text \<open>The parameter \<open>time_Now\<close> is the wall clock \<^verbatim>\<open>time.Now\<close>, a reading of the world.\<close>

definition applyCircuitBreakerDefaults ::
  "('s \<Rightarrow> int) \<Rightarrow> 's CircuitBreakerOptions \<Rightarrow> 's CircuitBreakerOptions" where
  "applyCircuitBreakerDefaults time_Now options =
     (let defaults = DefaultCircuitBreakerOptions :: 's CircuitBreakerOptions;
          o1 = (if FailureThreshold options = 0
                then options\<lparr>FailureThreshold := FailureThreshold defaults\<rparr> else options);
          o2 = (if SuccessThreshold o1 = 0
                then o1\<lparr>SuccessThreshold := SuccessThreshold defaults\<rparr> else o1);
          o3 = (if OpenTimeout o2 = 0
                then o2\<lparr>OpenTimeout := OpenTimeout defaults\<rparr> else o2);
          o4 = (if ShouldTrip o3 = None
                then o3\<lparr>ShouldTrip := Some (\<lambda>err. err \<noteq> None)\<rparr> else o3);
          o5 = (if Now o4 = None then o4\<lparr>Now := Some time_Now\<rparr> else o4)
      in o5)"

text \<open>
  The breaker. Its mutex makes \<^verbatim>\<open>beforeCall\<close> and \<^verbatim>\<open>afterCall\<close> atomic: each is one step
  on the pair of the breaker and the world. The counters are Go \<^verbatim>\<open>int\<close>s; they are reset
  whenever they reach their threshold, itself an \<^verbatim>\<open>int\<close>, so they never wrap.
\<close>

record 's circuitBreaker =
  opts :: "'s CircuitBreakerOptions"
  state :: CircuitBreakerState
  openedAt :: int
  failures :: int
  halfSuccess :: int
  halfInFlight :: bool

definition newCircuitBreaker :: "'s CircuitBreakerOptions \<Rightarrow> 's circuitBreaker" where
  "newCircuitBreaker os =
     \<lparr>opts = os, state = CircuitClosed, openedAt = 0, failures = 0, halfSuccess = 0,
      halfInFlight = False\<rparr>"

definition call_Now :: "'s CircuitBreakerOptions \<Rightarrow> 's \<Rightarrow> int completion" where
  "call_Now os s = (case Now os of None \<Rightarrow> Panics | Some f \<Rightarrow> Returns (f s))"

definition transitionLocked ::
  "CircuitBreakerState \<Rightarrow> 's circuitBreaker \<times> 's \<Rightarrow> 's circuitBreaker \<times> 's" where
  "transitionLocked target = (\<lambda>(c, s).
     if state c = target then (c, s)
     else (c\<lparr>state := target\<rparr>,
           case OnStateChange (opts c) of
             None \<Rightarrow> s
           | Some observer \<Rightarrow> observer (state c) target s))"

definition openLocked ::
  "'s circuitBreaker \<times> 's \<Rightarrow> unit completion \<times> ('s circuitBreaker \<times> 's)" where
  "openLocked = (\<lambda>(c, s).
     let c1 = c\<lparr>failures := 0, halfSuccess := 0, halfInFlight := False\<rparr> in
     case call_Now (opts c1) s of
       Panics \<Rightarrow> (Panics, (c1, s))
     | Returns t \<Rightarrow> (Returns (), transitionLocked CircuitOpen (c1\<lparr>openedAt := t\<rparr>, s)))"

text \<open>
  The body of \<^verbatim>\<open>case CircuitHalfOpen\<close>, which the open case reaches by \<^verbatim>\<open>fallthrough\<close>
  once the timeout has elapsed.
\<close>

definition halfOpenAdmission ::
  "'s circuitBreaker \<times> 's \<Rightarrow> error option completion \<times> ('s circuitBreaker \<times> 's)" where
  "halfOpenAdmission = (\<lambda>(c, s).
     if halfInFlight c then (Returns (Some ErrCircuitHalfOpenBusy), (c, s))
     else (Returns None, (c\<lparr>halfInFlight := True\<rparr>, s)))"

definition beforeCall ::
  "'s Context \<Rightarrow> 's circuitBreaker \<times> 's
     \<Rightarrow> error option completion \<times> ('s circuitBreaker \<times> 's)" where
  "beforeCall ctx = (\<lambda>(c, s).
     case ctxErr ctx s of
       Some e \<Rightarrow> (Returns (Some e), (c, s))
     | None \<Rightarrow>
        (case call_Now (opts c) s of
           Panics \<Rightarrow> (Panics, (c, s))
         | Returns now \<Rightarrow>
            (case state c of
               CircuitClosed \<Rightarrow> (Returns None, (c, s))
             | CircuitOpen \<Rightarrow>
                 if OpenTimeout (opts c) \<le> time_Sub now (openedAt c)
                 then halfOpenAdmission (transitionLocked CircuitHalfOpen (c, s))
                 else (Returns (Some ErrCircuitOpen), (c, s))
             | CircuitHalfOpen \<Rightarrow> halfOpenAdmission (c, s))))"

definition afterCall ::
  "error option \<Rightarrow> 's circuitBreaker \<times> 's
     \<Rightarrow> unit completion \<times> ('s circuitBreaker \<times> 's)" where
  "afterCall err = (\<lambda>(c, s).
     let c1 = (if state c = CircuitHalfOpen then c\<lparr>halfInFlight := False\<rparr> else c) in
     if err = None then
       (case state c1 of
          CircuitClosed \<Rightarrow> (Returns (), (c1\<lparr>failures := 0\<rparr>, s))
        | CircuitHalfOpen \<Rightarrow>
            (let c2 = c1\<lparr>halfSuccess := halfSuccess c1 + 1\<rparr> in
             if SuccessThreshold (opts c2) \<le> halfSuccess c2
             then (Returns (),
                   transitionLocked CircuitClosed (c2\<lparr>failures := 0, halfSuccess := 0\<rparr>, s))
             else (Returns (), (c2, s)))
        | CircuitOpen \<Rightarrow> (Returns (), (c1, s)))
     else
       (case ShouldTrip (opts c1) of
          None \<Rightarrow> (Panics, (c1, s))
        | Some shouldTrip \<Rightarrow>
            if \<not> shouldTrip err then (Returns (), (c1, s))
            else
              (case state c1 of
                 CircuitClosed \<Rightarrow>
                   (let c2 = c1\<lparr>failures := failures c1 + 1\<rparr> in
                    if FailureThreshold (opts c2) \<le> failures c2
                    then openLocked (c2, s)
                    else (Returns (), (c2, s)))
               | CircuitHalfOpen \<Rightarrow> openLocked (c1, s)
               | CircuitOpen \<Rightarrow> (Returns (), (c1, s)))))"

text \<open>
  \<^verbatim>\<open>CircuitBreaker(options)\<close> builds one breaker from the options with their defaults
  applied, and returns a policy whose handlers all share it. The embedding gives the breaker
  it builds and the handler the policy returns; the handler runs on the pair of the shared
  breaker and the world. A panic of the wrapped handler unwinds past \<^verbatim>\<open>afterCall\<close>.
\<close>

definition CircuitBreaker_new ::
  "('s \<Rightarrow> int) \<Rightarrow> 's CircuitBreakerOptions \<Rightarrow> 's circuitBreaker" where
  "CircuitBreaker_new time_Now options =
     newCircuitBreaker (applyCircuitBreakerDefaults time_Now options)"

definition CircuitBreaker ::
  "('r, 's) Handler \<Rightarrow> 's Context \<Rightarrow> 's circuitBreaker \<times> 's
     \<Rightarrow> 'r outcome completion \<times> ('s circuitBreaker \<times> 's)" where
  "CircuitBreaker nxt ctx = (\<lambda>(c, s).
     case ctxErr ctx s of
       Some e \<Rightarrow> (Returns (None, Some e), (c, s))
     | None \<Rightarrow>
        (case beforeCall ctx (c, s) of
           (Panics, st) \<Rightarrow> (Panics, st)
         | (Returns (Some e), st) \<Rightarrow> (Returns (None, Some e), st)
         | (Returns None, (c1, s1)) \<Rightarrow>
            (case nxt ctx s1 of
               (Panics, s2) \<Rightarrow> (Panics, (c1, s2))
             | (Returns (result, err), s2) \<Rightarrow>
                (case afterCall err (c1, s2) of
                   (Panics, st) \<Rightarrow> (Panics, st)
                 | (Returns u, st) \<Rightarrow> (Returns (result, err), st)))))"

section \<open>The runtime\<close>

text \<open>
  What the policies ask of the Go runtime and standard library is a parameter of the
  embedding, a record of functions on the world:
  \<^item> \<open>rand_Int63\<close>: one accepted draw of the global random source, the value that
    \<^verbatim>\<open>rand.Int63n\<close> reduces modulo its argument;
  \<^item> \<open>timer_wait\<close>: the world at the moment the \<^verbatim>\<open>select\<close> on a timer of the given
    duration and on \<^verbatim>\<open>ctx.Done()\<close> wakes up;
  \<^item> \<open>time_Sleep\<close>: the world after \<^verbatim>\<open>time.Sleep\<close>;
  \<^item> \<open>context_WithTimeout\<close>: the child context \<^verbatim>\<open>context.WithTimeout\<close> derives;
  \<^item> \<open>deadline_first\<close>: the scheduler's resolution of the race in \<^verbatim>\<open>Timeout\<close>: \<open>None\<close>
    when the operation's goroutine delivers its outcome first, \<open>Some s'\<close> when the child
    context is done first, in the world \<open>s'\<close>.
\<close>

record 's Runtime =
  rand_Int63 :: "'s \<Rightarrow> nat \<times> 's"
  timer_wait :: "int \<Rightarrow> 's \<Rightarrow> 's"
  time_Sleep :: "int \<Rightarrow> 's \<Rightarrow> 's"
  context_WithTimeout :: "'s Context \<Rightarrow> int \<Rightarrow> 's \<Rightarrow> 's Context"
  deadline_first :: "'s Context \<Rightarrow> 's \<Rightarrow> 's option"

text \<open>\<^verbatim>\<open>rand.Int63n(n)\<close> panics unless \<^verbatim>\<open>n > 0\<close>.\<close>

definition rand_Int63n :: "'s Runtime \<Rightarrow> int \<Rightarrow> 's \<Rightarrow> int completion \<times> 's" where
  "rand_Int63n rt n s =
     (if n \<le> 0 then (Panics, s)
      else (case rand_Int63 rt s of (v, s') \<Rightarrow> (Returns (int v mod n), s')))"

section \<open>Retry\<close>

type_synonym BackoffStrategy = string

definition BackoffFixed :: BackoffStrategy where "BackoffFixed = ''fixed''"
definition BackoffLinear :: BackoffStrategy where "BackoffLinear = ''linear''"
definition BackoffExponential :: BackoffStrategy where "BackoffExponential = ''exponential''"

record RetryOptions =
  MaxAttempts :: int
  InitialDelay :: int
  MaxDelay :: int
  Backoff :: BackoffStrategy
  Jitter :: bool

definition DefaultRetryOptions :: RetryOptions where
  "DefaultRetryOptions =
     \<lparr>MaxAttempts = 3, InitialDelay = 100 * Millisecond, MaxDelay = 5 * Second,
      Backoff = BackoffExponential, Jitter = True\<rparr>"

definition applyDefaults :: "RetryOptions \<Rightarrow> RetryOptions" where
  "applyDefaults options =
     (let defaults = DefaultRetryOptions;
          o1 = (if MaxAttempts options = 0
                then options\<lparr>MaxAttempts := MaxAttempts defaults\<rparr> else options);
          o2 = (if InitialDelay o1 = 0
                then o1\<lparr>InitialDelay := InitialDelay defaults\<rparr> else o1);
          o3 = (if MaxDelay o2 = 0 then o2\<lparr>MaxDelay := MaxDelay defaults\<rparr> else o2);
          o4 = (if Backoff o3 = [] then o3\<lparr>Backoff := Backoff defaults\<rparr> else o3)
      in o4)"

text \<open>
  \<^verbatim>\<open>time.Duration(1<<uint(attempt))\<close>: the constant takes the type of the conversion, a
  64-bit shift, which gives 0 once the count reaches the width; a negative \<^verbatim>\<open>attempt\<close>
  converts to a count beyond the width.
\<close>

definition shiftOne :: "int \<Rightarrow> int" where
  "shiftOne attempt =
     (if 0 \<le> attempt \<and> attempt < 64 then wrap64 (2 ^ nat attempt) else 0)"

text \<open>The \<^verbatim>\<open>switch\<close> of \<^verbatim>\<open>computeDelay\<close>: the delay before jitter.\<close>

definition backoffDelay :: "int \<Rightarrow> RetryOptions \<Rightarrow> int" where
  "backoffDelay attempt os =
     (if Backoff os = BackoffFixed then InitialDelay os
      else if Backoff os = BackoffLinear
        then wrap64 (InitialDelay os * wrap64 (attempt + 1))
      else if Backoff os = BackoffExponential
        then wrap64 (InitialDelay os * shiftOne attempt)
      else InitialDelay os)"

definition computeDelay ::
  "'s Runtime \<Rightarrow> int \<Rightarrow> RetryOptions \<Rightarrow> 's \<Rightarrow> int completion \<times> 's" where
  "computeDelay rt attempt os s =
     (let delay = backoffDelay attempt os in
      case (if Jitter os then
              (case rand_Int63n rt (quo delay 2) s of
                 (Panics, s') \<Rightarrow> (Panics, s')
               | (Returns jitter, s') \<Rightarrow> (Returns (wrap64 (delay + jitter)), s'))
            else (Returns delay, s)) of
        (Panics, s') \<Rightarrow> (Panics, s')
      | (Returns delay', s') \<Rightarrow>
          (Returns (if MaxDelay os < delay' then MaxDelay os else delay'), s'))"

text \<open>
  The loop of \<^verbatim>\<open>Retry\<close>. After the wait, \<^verbatim>\<open>select\<close> takes the branch of \<^verbatim>\<open>ctx.Done()\<close>
  only if the context is done, and returns \<^verbatim>\<open>ctx.Err()\<close>; if it takes the timer's branch
  while the context is done too, the test at the top of the next iteration (there is one,
  this not being the last attempt) returns the same pair from the same world. So the
  outcome is decided by \<^verbatim>\<open>ctx.Err()\<close> in the world at wake-up.
\<close>

function Retry_loop ::
  "'s Runtime \<Rightarrow> RetryOptions \<Rightarrow> ('r, 's) Handler \<Rightarrow> 's Context \<Rightarrow> int \<Rightarrow> error option \<Rightarrow> 's
     \<Rightarrow> 'r outcome completion \<times> 's" where
  "Retry_loop rt os nxt ctx attempt lastErr s =
     (if attempt < MaxAttempts os then
        (case ctxErr ctx s of
           Some e \<Rightarrow> (Returns (None, Some e), s)
         | None \<Rightarrow>
            (case nxt ctx s of
               (Panics, s1) \<Rightarrow> (Panics, s1)
             | (Returns (result, None), s1) \<Rightarrow> (Returns (result, None), s1)
             | (Returns (result, Some err), s1) \<Rightarrow>
                 if attempt = MaxAttempts os - 1 then (Returns (None, Some err), s1)
                 else
                   (case computeDelay rt attempt os s1 of
                      (Panics, s2) \<Rightarrow> (Panics, s2)
                    | (Returns delay, s2) \<Rightarrow>
                        (let s3 = timer_wait rt delay s2 in
                         case ctxErr ctx s3 of
                           Some e \<Rightarrow> (Returns (None, Some e), s3)
                         | None \<Rightarrow> Retry_loop rt os nxt ctx (attempt + 1) (Some err) s3))))
      else (Returns (None, lastErr), s))"
  by pat_completeness auto
termination
  by (relation "measure (\<lambda>(rt, os, nxt, ctx, attempt, lastErr, s). nat (MaxAttempts os - attempt))")
     auto

definition Retry :: "'s Runtime \<Rightarrow> RetryOptions \<Rightarrow> ('r, 's) Handler \<Rightarrow> ('r, 's) Handler" where
  "Retry rt options nxt ctx s = Retry_loop rt (applyDefaults options) nxt ctx 0 None s"

section \<open>The earlier Retry\<close>

text \<open>
  The source holds a second, earlier \<^verbatim>\<open>Retry\<close>, with options \<^verbatim>\<open>{MaxAttempts, Delay}\<close>:
  no defaults, no jitter, no test of the context, \<^verbatim>\<open>time.Sleep\<close> between attempts and a
  delay that doubles.
\<close>

record RetryOptions_early =
  MaxAttempts_early :: int
  Delay :: int

function Retry_early_loop ::
  "'s Runtime \<Rightarrow> int \<Rightarrow> ('r, 's) Handler \<Rightarrow> 's Context \<Rightarrow> int \<Rightarrow> int \<Rightarrow> 's
     \<Rightarrow> 'r outcome completion \<times> 's" where
  "Retry_early_loop rt maxAttempts nxt ctx i delay s =
     (if i < maxAttempts then
        (case nxt ctx s of
           (Panics, s1) \<Rightarrow> (Panics, s1)
         | (Returns (resp, Some err), s1) \<Rightarrow>
             if i = maxAttempts - 1 then (Returns (None, Some err), s1)
             else Retry_early_loop rt maxAttempts nxt ctx (i + 1) (wrap64 (delay * 2))
                    (time_Sleep rt delay s1)
         | (Returns (resp, None), s1) \<Rightarrow> (Returns (resp, None), s1))
      else (Returns (None, Some ErrMaxAttemptsReached), s))"
  by pat_completeness auto
termination
  by (relation "measure (\<lambda>(rt, maxAttempts, nxt, ctx, i, delay, s). nat (maxAttempts - i))") auto

definition Retry_early ::
  "'s Runtime \<Rightarrow> RetryOptions_early \<Rightarrow> ('r, 's) Handler \<Rightarrow> ('r, 's) Handler" where
  "Retry_early rt retryOptions nxt ctx s =
     Retry_early_loop rt (MaxAttempts_early retryOptions) nxt ctx 0 (Delay retryOptions) s"

section \<open>Timeout (policies/timeout.go)\<close>

record TimeoutOptions =
  Duration :: int

definition DefaultTimeoutOptions :: TimeoutOptions where
  "DefaultTimeoutOptions = \<lparr>Duration = 5 * Second\<rparr>"

definition applyTimeoutDefaults :: "TimeoutOptions \<Rightarrow> TimeoutOptions" where
  "applyTimeoutDefaults options =
     (let defaults = DefaultTimeoutOptions in
      if Duration options = 0 then options\<lparr>Duration := Duration defaults\<rparr> else options)"

definition Timeout :: "'s Runtime \<Rightarrow> TimeoutOptions \<Rightarrow> ('r, 's) Handler \<Rightarrow> ('r, 's) Handler" where
  "Timeout rt options nxt =
     (let os = applyTimeoutDefaults options in
      if Duration os < 0 then nxt
      else (\<lambda>ctx s.
        case ctxErr ctx s of
          Some e \<Rightarrow> (Returns (None, Some e), s)
        | None \<Rightarrow>
           (let timeoutCtx = context_WithTimeout rt ctx (Duration os) s in
            case deadline_first rt timeoutCtx s of
              None \<Rightarrow> nxt timeoutCtx s
            | Some s' \<Rightarrow> (Returns (None, ctxErr timeoutCtx s'), s'))))"

section \<open>Rate limiter (policies/rate\_limit.go)\<close>

text \<open>
  The bucket holds a \<^verbatim>\<open>float64\<close>. The arithmetic of IEEE 754 doubles is a parameter: the
  conversion from integers, the three operations and the three comparisons the limiter
  uses, and \<^verbatim>\<open>Duration.Seconds\<close>.
\<close>

record 'f Float64 =
  float64 :: "int \<Rightarrow> 'f"
  f_add :: "'f \<Rightarrow> 'f \<Rightarrow> 'f"
  f_sub :: "'f \<Rightarrow> 'f \<Rightarrow> 'f"
  f_mul :: "'f \<Rightarrow> 'f \<Rightarrow> 'f"
  f_le :: "'f \<Rightarrow> 'f \<Rightarrow> bool"
  f_gt :: "'f \<Rightarrow> 'f \<Rightarrow> bool"
  f_ge :: "'f \<Rightarrow> 'f \<Rightarrow> bool"
  Seconds :: "int \<Rightarrow> 'f"

text \<open>
  The field \<^verbatim>\<open>Now\<close> of \<^verbatim>\<open>RateLimitOptions\<close> is \<open>clock\<close> here, the breaker's options
  having taken the name.
\<close>

record ('f, 's) RateLimitOptions =
  Rate :: 'f
  Burst :: int
  clock :: "('s \<Rightarrow> int) option"

definition DefaultRateLimitOptions :: "'f Float64 \<Rightarrow> ('f, 's) RateLimitOptions" where
  "DefaultRateLimitOptions fl = \<lparr>Rate = float64 fl 10, Burst = 10, clock = None\<rparr>"

definition applyRateLimitDefaults ::
  "'f Float64 \<Rightarrow> ('s \<Rightarrow> int) \<Rightarrow> ('f, 's) RateLimitOptions \<Rightarrow> ('f, 's) RateLimitOptions" where
  "applyRateLimitDefaults fl time_Now options =
     (let defaults = DefaultRateLimitOptions fl :: ('f, 's) RateLimitOptions;
          o1 = (if f_le fl (Rate options) (float64 fl 0)
                then options\<lparr>Rate := Rate defaults\<rparr> else options);
          o2 = (if Burst o1 \<le> 0 then o1\<lparr>Burst := Burst defaults\<rparr> else o1);
          o3 = (if clock o2 = None then o2\<lparr>clock := Some time_Now\<rparr> else o2)
      in o3)"

text \<open>The variables \<^verbatim>\<open>tokens\<close> and \<^verbatim>\<open>lastAt\<close> the closures of \<^verbatim>\<open>RateLimit\<close> share.\<close>

record 'f bucket =
  tokens :: 'f
  lastAt :: int

definition RateLimit_new ::
  "'f Float64 \<Rightarrow> ('s \<Rightarrow> int) \<Rightarrow> ('f, 's) RateLimitOptions \<Rightarrow> 's \<Rightarrow> 'f bucket completion" where
  "RateLimit_new fl time_Now options s =
     (let os = applyRateLimitDefaults fl time_Now options in
      case clock os of
        None \<Rightarrow> Panics
      | Some now \<Rightarrow> Returns \<lparr>tokens = float64 fl (Burst os), lastAt = now s\<rparr>)"

definition allow ::
  "'f Float64 \<Rightarrow> ('f, 's) RateLimitOptions \<Rightarrow> 'f bucket \<times> 's
     \<Rightarrow> bool completion \<times> ('f bucket \<times> 's)" where
  "allow fl os = (\<lambda>(b, s).
     case clock os of
       None \<Rightarrow> (Panics, (b, s))
     | Some clk \<Rightarrow>
        (let now = clk s;
             elapsed = Seconds fl (time_Sub now (lastAt b));
             t1 = f_add fl (tokens b) (f_mul fl elapsed (Rate os));
             t2 = (if f_gt fl t1 (float64 fl (Burst os)) then float64 fl (Burst os) else t1);
             b1 = \<lparr>tokens = t2, lastAt = now\<rparr>
         in if f_ge fl t2 (float64 fl 1)
            then (Returns True, (b1\<lparr>tokens := f_sub fl t2 (float64 fl 1)\<rparr>, s))
            else (Returns False, (b1, s))))"

text \<open>
  \<^verbatim>\<open>RateLimit(options)\<close> applies the defaults, fills the bucket (\<open>RateLimit_new\<close>) and
  returns the policy; its handler runs on the pair of the shared bucket and the world.
\<close>

definition RateLimit ::
  "'f Float64 \<Rightarrow> ('s \<Rightarrow> int) \<Rightarrow> ('f, 's) RateLimitOptions \<Rightarrow> ('r, 's) Handler \<Rightarrow> 's Context
     \<Rightarrow> 'f bucket \<times> 's \<Rightarrow> 'r outcome completion \<times> ('f bucket \<times> 's)" where
  "RateLimit fl time_Now options nxt ctx =
     (let os = applyRateLimitDefaults fl time_Now options in
      (\<lambda>(b, s).
        case ctxErr ctx s of
          Some e \<Rightarrow> (Returns (None, Some e), (b, s))
        | None \<Rightarrow>
           (case allow fl os (b, s) of
              (Panics, st) \<Rightarrow> (Panics, st)
            | (Returns False, st) \<Rightarrow> (Returns (None, Some ErrRateLimitExceeded), st)
            | (Returns True, (b1, s1)) \<Rightarrow>
               (case nxt ctx s1 of (out, s2) \<Rightarrow> (out, (b1, s2))))))"

section \<open>Execute\<close>

text \<open>
  \<^verbatim>\<open>for i := len(policies) - 1; i >= 0; i-- { h = policies[i](h) }\<close>: the counter of the
  embedding is \<^verbatim>\<open>i + 1\<close>, the number of policies still to apply, so every index is in
  range.
\<close>

fun Execute_loop :: "(('c \<Rightarrow> 'o) \<Rightarrow> 'c \<Rightarrow> 'o) list \<Rightarrow> nat \<Rightarrow> ('c \<Rightarrow> 'o) \<Rightarrow> 'c \<Rightarrow> 'o" where
  "Execute_loop policies 0 h = h"
| "Execute_loop policies (Suc i) h = Execute_loop policies i ((policies ! i) h)"

definition Execute :: "'c \<Rightarrow> ('c \<Rightarrow> 'o) \<Rightarrow> (('c \<Rightarrow> 'o) \<Rightarrow> 'c \<Rightarrow> 'o) list \<Rightarrow> 'o" where
  "Execute ctx handler policies = Execute_loop policies (length policies) handler ctx"

section \<open>Concrete instances\<close>

text \<open>
  The instances at which the theorems below are evaluated, after the repository's tests:
  a context that is never cancelled and one that is cancelled; an operation that counts its
  invocations in the world and fails each time with an error of its own, and one that
  counts and succeeds; a runtime whose random source always draws \<open>v\<close>, whose waits leave
  the world alone, and in whose races the operation always finishes first; and the exact
  arithmetic of the reals in the place of the limiter's floating-point operations, which
  rounds nowhere.
\<close>

definition liveCtx :: "'s Context" where
  "liveCtx = \<lparr>ctxErr = \<lambda>w. None\<rparr>"

definition cancelledCtx :: "'s Context" where
  "cancelledCtx = \<lparr>ctxErr = \<lambda>w. Some Canceled\<rparr>"

definition failingOp :: "(nat, nat) Handler" where
  "failingOp ctx k = (Returns (None, Some (OpError k)), k + 1)"

definition succeedingOp :: "(nat, nat) Handler" where
  "succeedingOp ctx k = (Returns (Some 123, None), k + 1)"

definition idleRuntime :: "nat \<Rightarrow> nat Runtime" where
  "idleRuntime v =
     \<lparr>rand_Int63 = (\<lambda>w. (v, w)), timer_wait = (\<lambda>d w. w), time_Sleep = (\<lambda>d w. w),
      context_WithTimeout = (\<lambda>ctx d w. ctx), deadline_first = (\<lambda>ctx w. None)\<rparr>"

definition exactArith :: "real Float64" where
  "exactArith =
     \<lparr>float64 = of_int, f_add = (+), f_sub = (-), f_mul = (*), f_le = (\<le>), f_gt = (>),
      f_ge = (\<ge>), Seconds = (\<lambda>d. of_int d / 1000000000)\<rparr>"

section \<open>Properties of the circuit breaker\<close>



lemma transitionLocked_fst:
  "fst (transitionLocked target (c, s)) = c\<lparr>state := target\<rparr>"
  by (simp add: transitionLocked_def)











section \<open>Properties of the retry delay\<close>

lemma wrap64_id: "minDuration \<le> x \<Longrightarrow> x \<le> maxDuration \<Longrightarrow> wrap64 x = x"
  by (simp add: wrap64_def minDuration_def maxDuration_def)

lemma wrap64_range: "minDuration \<le> wrap64 x \<and> wrap64 x \<le> maxDuration"
proof -
  have "0 \<le> (x + 2 ^ 63) mod (2 ^ 64 :: int)" "(x + 2 ^ 63) mod (2 ^ 64 :: int) < 2 ^ 64"
    by simp_all
  then show ?thesis by (simp add: wrap64_def minDuration_def maxDuration_def)
qed

lemma quo_2_nonpos: "d \<le> 1 \<Longrightarrow> quo d 2 \<le> 0"
  by (auto simp: quo_def)

lemma quo_2_pos: "2 \<le> d \<Longrightarrow> 0 < quo d 2"
  by (auto simp: quo_def)

lemma computeDelay_no_jitter:
  "\<not> Jitter os \<Longrightarrow> computeDelay rt attempt os s = (Returns (min (backoffDelay attempt os) (MaxDelay os)), s)"
  by (simp add: computeDelay_def Let_def min_def)

lemma computeDelay_jitter_panics:
  "Jitter os \<Longrightarrow> quo (backoffDelay attempt os) 2 \<le> 0 \<Longrightarrow> computeDelay rt attempt os s = (Panics, s)"
  by (simp add: computeDelay_def Let_def rand_Int63n_def)

lemma computeDelay_jitter_returns:
  "Jitter os \<Longrightarrow> 0 < quo (backoffDelay attempt os) 2 \<Longrightarrow>
   computeDelay rt attempt os s =
     (Returns (min (wrap64 (backoffDelay attempt os
                 + int (fst (rand_Int63 rt s)) mod quo (backoffDelay attempt os) 2)) (MaxDelay os)),
      snd (rand_Int63 rt s))"
  by (simp add: computeDelay_def Let_def rand_Int63n_def min_def split: prod.split)

lemma backoffDelay_fixed: "Backoff os = BackoffFixed \<Longrightarrow> backoffDelay attempt os = InitialDelay os"
  by (simp add: backoffDelay_def)

lemma backoffDelay_linear:
  assumes "Backoff os = BackoffLinear" "0 \<le> attempt" "attempt + 1 \<le> maxDuration"
    and "minDuration \<le> InitialDelay os * (attempt + 1)" "InitialDelay os * (attempt + 1) \<le> maxDuration"
  shows "backoffDelay attempt os = InitialDelay os * (attempt + 1)"
proof -
  have "wrap64 (attempt + 1) = attempt + 1"
    using assms by (intro wrap64_id) (simp_all add: minDuration_def)
  then show ?thesis using assms
    by (simp add: backoffDelay_def BackoffLinear_def BackoffFixed_def wrap64_id)
qed

lemma shiftOne_pow: "0 \<le> attempt \<Longrightarrow> attempt < 63 \<Longrightarrow> shiftOne attempt = 2 ^ nat attempt"
proof -
  assume a: "0 \<le> attempt" "attempt < 63"
  then have "nat attempt \<le> 62" by simp
  then have "(2::int) ^ nat attempt \<le> 2 ^ 62" by (intro power_increasing) simp_all
  then have hi: "(2::int) ^ nat attempt \<le> maxDuration" by (simp add: maxDuration_def)
  have "minDuration \<le> 0" by (simp add: minDuration_def)
  also have "(0::int) \<le> 2 ^ nat attempt" by simp
  finally have lo: "minDuration \<le> 2 ^ nat attempt" .
  show ?thesis using a wrap64_id[OF lo hi] by (simp add: shiftOne_def)
qed

lemma backoffDelay_exponential:
  assumes "Backoff os = BackoffExponential" "0 \<le> attempt" "attempt < 63"
    and "minDuration \<le> InitialDelay os * 2 ^ nat attempt" "InitialDelay os * 2 ^ nat attempt \<le> maxDuration"
  shows "backoffDelay attempt os = InitialDelay os * 2 ^ nat attempt"
  using assms
  by (simp add: backoffDelay_def BackoffLinear_def BackoffFixed_def BackoffExponential_def
        shiftOne_pow wrap64_id)

text \<open>
  Claim C4. With jitter disabled \<open>computeDelay\<close> returns the smaller of the backoff delay
  and \<open>MaxDelay\<close> (\<open>computeDelay_no_jitter\<close>), and the backoff delay is \<open>InitialDelay\<close>,
  \<open>InitialDelay * (attempt + 1)\<close> or \<open>InitialDelay * 2 ^ attempt\<close> as long as the product
  fits in 64 bits (\<open>backoffDelay_fixed\<close>, \<open>backoffDelay_linear\<close>,
  \<open>backoffDelay_exponential\<close>). Beyond that the product wraps around: options that
  \<open>applyDefaults\<close> leaves as they are, with the default initial delay of 100 ms, exponential
  backoff and 40 attempts allowed, give at attempt 37 a negative delay, which the cap lets
  through, where the formula \<open>100 ms * 2 ^ 37\<close> capped at \<open>MaxDelay\<close> is 5 s.
\<close>

theorem computeDelay_exponential_wraps:
  "applyDefaults \<lparr>MaxAttempts = 40, InitialDelay = 100 * Millisecond, MaxDelay = 5 * Second,
      Backoff = BackoffExponential, Jitter = False\<rparr>
     = \<lparr>MaxAttempts = 40, InitialDelay = 100 * Millisecond, MaxDelay = 5 * Second,
      Backoff = BackoffExponential, Jitter = False\<rparr>
   \<and> computeDelay rt 37 \<lparr>MaxAttempts = 40, InitialDelay = 100 * Millisecond,
        MaxDelay = 5 * Second, Backoff = BackoffExponential, Jitter = False\<rparr> s
     = (Returns (- 4702848726509551616), s)
   \<and> min (100 * Millisecond * 2 ^ 37) (5 * Second) = 5 * Second"
  by (simp add: applyDefaults_def DefaultRetryOptions_def computeDelay_def backoffDelay_def
      shiftOne_def wrap64_def Millisecond_def Second_def BackoffExponential_def BackoffFixed_def
      BackoffLinear_def Let_def)


text \<open>
  Claim C5 says that the delay handed to the jitter step already lies between 0 and
  \<open>MaxDelay\<close>. It does not: with an initial delay of 10 s, a maximal delay of 5 s and fixed
  backoff, the delay before jitter is 10 s.
\<close>

theorem backoffDelay_not_clamped:
  "\<not> (0 \<le> backoffDelay 0 \<lparr>MaxAttempts = 3, InitialDelay = 10 * Second, MaxDelay = 5 * Second,
                Backoff = BackoffFixed, Jitter = True\<rparr>
      \<and> backoffDelay 0 \<lparr>MaxAttempts = 3, InitialDelay = 10 * Second, MaxDelay = 5 * Second,
                Backoff = BackoffFixed, Jitter = True\<rparr>
          \<le> MaxDelay \<lparr>MaxAttempts = 3, InitialDelay = 10 * Second, MaxDelay = 5 * Second,
                Backoff = BackoffFixed, Jitter = True\<rparr>)"
  by (simp add: backoffDelay_def Second_def)

text \<open>
  Claim C5, as the code has it. \<open>computeDelay\<close> caps once, after the jitter step: whenever
  it returns, the delay is at most \<open>MaxDelay\<close>; without jitter it is the smaller of the
  backoff delay and \<open>MaxDelay\<close>, and no random number is drawn; with jitter it is the
  smaller of \<open>MaxDelay\<close> and the (wrapped) sum of the unclamped backoff delay and a jitter
  term, the draw reduced modulo half of that unclamped delay.
\<close>

theorem computeDelay_capped_once:
  assumes "computeDelay rt attempt os s = (Returns d, s')"
  shows "d \<le> MaxDelay os
       \<and> (\<not> Jitter os \<longrightarrow> d = min (backoffDelay attempt os) (MaxDelay os) \<and> s' = s)
       \<and> (Jitter os \<longrightarrow>
            (\<exists>j. 0 \<le> j \<and> j < quo (backoffDelay attempt os) 2
                 \<and> j = int (fst (rand_Int63 rt s)) mod quo (backoffDelay attempt os) 2
                 \<and> d = min (wrap64 (backoffDelay attempt os + j)) (MaxDelay os)))"
proof (cases "Jitter os")
  case False
  then show ?thesis using assms by (auto simp: computeDelay_no_jitter)
next
  case True
  show ?thesis
  proof (cases "quo (backoffDelay attempt os) 2 \<le> 0")
    case nonpos: True
    then show ?thesis using assms True by (simp add: computeDelay_jitter_panics)
  next
    case False
    then have pos: "0 < quo (backoffDelay attempt os) 2" by simp
    have d: "d = min (wrap64 (backoffDelay attempt os
                 + int (fst (rand_Int63 rt s)) mod quo (backoffDelay attempt os) 2)) (MaxDelay os)"
      using assms computeDelay_jitter_returns[OF True pos, of rt s] by simp
    have "0 \<le> int (fst (rand_Int63 rt s)) mod quo (backoffDelay attempt os) 2"
      "int (fst (rand_Int63 rt s)) mod quo (backoffDelay attempt os) 2 < quo (backoffDelay attempt os) 2"
      using pos by simp_all
    then show ?thesis using d True by auto
  qed
qed

theorem computeDelay_capped_once_witness:
  "computeDelay \<lparr>rand_Int63 = (\<lambda>w :: nat. (4000000007, w + 1)), timer_wait = (\<lambda>d w. w),
       time_Sleep = (\<lambda>d w. w), context_WithTimeout = (\<lambda>c d w. c), deadline_first = (\<lambda>c w. None)\<rparr>
     0 \<lparr>MaxAttempts = 3, InitialDelay = 10 * Second, MaxDelay = 5 * Second,
        Backoff = BackoffFixed, Jitter = True\<rparr> 0
     = (Returns (5 * Second), 1)
   \<and> 5 * Second \<le> MaxDelay \<lparr>MaxAttempts = 3, InitialDelay = 10 * Second, MaxDelay = 5 * Second,
        Backoff = BackoffFixed, Jitter = True\<rparr>
   \<and> 5 * Second = min (wrap64 (10 * Second + 4000000007)) (5 * Second)"
proof -
  define rt :: "nat Runtime" where "rt = \<lparr>rand_Int63 = (\<lambda>w :: nat. (4000000007, w + 1)),
       timer_wait = (\<lambda>d w. w), time_Sleep = (\<lambda>d w. w), context_WithTimeout = (\<lambda>c d w. c),
       deadline_first = (\<lambda>c w. None)\<rparr>"
  define os where "os = \<lparr>MaxAttempts = 3, InitialDelay = 10 * Second, MaxDelay = 5 * Second,
        Backoff = BackoffFixed, Jitter = True\<rparr>"
  have run: "computeDelay rt 0 os 0 = (Returns (5 * Second), 1)"
    by (simp add: computeDelay_def backoffDelay_def rand_Int63n_def quo_def wrap64_def Let_def
        rt_def os_def Second_def)
  have j: "Jitter os" and b: "backoffDelay 0 os = 10 * Second" and m: "MaxDelay os = 5 * Second"
    by (simp_all add: os_def backoffDelay_def)
  have r: "fst (rand_Int63 rt 0) = 4000000007" by (simp add: rt_def)
  from computeDelay_capped_once[OF run] j
  have "5 * Second \<le> MaxDelay os"
    and "\<exists>j. j = int (fst (rand_Int63 rt 0)) mod quo (backoffDelay 0 os) 2
           \<and> 5 * Second = min (wrap64 (backoffDelay 0 os + j)) (MaxDelay os)"
    by blast+
  then have "5 * Second \<le> MaxDelay os"
    and "5 * Second = min (wrap64 (10 * Second + 4000000007)) (5 * Second)"
    by (simp_all add: b m r quo_def Second_def)
  with run show ?thesis unfolding rt_def os_def by simp
qed

text \<open>
  Claim C6. \<open>applyDefaults\<close> keeps a non-zero initial delay and the jitter flag. With jitter
  enabled and an initial delay of one nanosecond, or any negative one, the delay
  computation panics in \<^verbatim>\<open>rand.Int63n\<close>: at every attempt under fixed backoff, and at the
  first attempt under any backoff (the delay being a 64-bit value). So \<open>computeDelay\<close>
  does not return on all the options \<open>Retry\<close> accepts.
\<close>

theorem computeDelay_panics:
  assumes "Jitter os"
    and "InitialDelay os = Nanosecond \<or> InitialDelay os < 0"
    and "Backoff os = BackoffFixed \<or> (attempt = 0 \<and> minDuration \<le> InitialDelay os)"
  shows "InitialDelay (applyDefaults os) = InitialDelay os
       \<and> Jitter (applyDefaults os)
       \<and> computeDelay rt attempt (applyDefaults os) s = (Panics, s)"
proof -
  have nz: "InitialDelay os \<noteq> 0" using assms(2) by (auto simp: Nanosecond_def)
  have i: "InitialDelay (applyDefaults os) = InitialDelay os"
    and j: "Jitter (applyDefaults os)"
    using nz assms(1) by (simp_all add: applyDefaults_def Let_def)
  have le1: "InitialDelay os \<le> 1" using assms(2) by (auto simp: Nanosecond_def)
  have "backoffDelay attempt (applyDefaults os) = InitialDelay os"
  proof (cases "Backoff os = BackoffFixed")
    case True
    then have "Backoff (applyDefaults os) = BackoffFixed"
      by (simp add: applyDefaults_def Let_def BackoffFixed_def)
    then show ?thesis using i by (simp add: backoffDelay_fixed)
  next
    case False
    then have a0: "attempt = 0" and lo: "minDuration \<le> InitialDelay os" using assms(3) by auto
    have hi: "InitialDelay os \<le> maxDuration" using le1 by (simp add: maxDuration_def)
    have w1: "wrap64 1 = 1" by (simp add: wrap64_def)
    show ?thesis using i a0 wrap64_id[OF lo hi]
      by (simp add: backoffDelay_def shiftOne_def w1)
  qed
  then have "quo (backoffDelay attempt (applyDefaults os)) 2 \<le> 0"
    using le1 by (simp add: quo_2_nonpos)
  then show ?thesis using i j by (simp add: computeDelay_jitter_panics)
qed

theorem computeDelay_panics_witness:
  "Jitter \<lparr>MaxAttempts = 3, InitialDelay = Nanosecond, MaxDelay = 5 * Second,
        Backoff = BackoffFixed, Jitter = True\<rparr>
   \<and> computeDelay (idleRuntime 7) 0 \<lparr>MaxAttempts = 3, InitialDelay = Nanosecond,
        MaxDelay = 5 * Second, Backoff = BackoffFixed, Jitter = True\<rparr> 0 = (Panics, 0)
   \<and> computeDelay (idleRuntime 7) 4 \<lparr>MaxAttempts = 9, InitialDelay = - Second,
        MaxDelay = 5 * Second, Backoff = BackoffFixed, Jitter = True\<rparr> 0 = (Panics, 0)
   \<and> computeDelay (idleRuntime 7) 0 \<lparr>MaxAttempts = 9, InitialDelay = - Second,
        MaxDelay = 5 * Second, Backoff = BackoffExponential, Jitter = True\<rparr> 0 = (Panics, 0)"
proof -
  define o1 where "o1 = \<lparr>MaxAttempts = 3, InitialDelay = Nanosecond, MaxDelay = 5 * Second,
        Backoff = BackoffFixed, Jitter = True\<rparr>"
  define o2 where "o2 = \<lparr>MaxAttempts = 9, InitialDelay = - Second, MaxDelay = 5 * Second,
        Backoff = BackoffFixed, Jitter = True\<rparr>"
  define o3 where "o3 = \<lparr>MaxAttempts = 9, InitialDelay = - Second, MaxDelay = 5 * Second,
        Backoff = BackoffExponential, Jitter = True\<rparr>"
  have same: "applyDefaults o1 = o1" "applyDefaults o2 = o2" "applyDefaults o3 = o3"
    by (simp_all add: o1_def o2_def o3_def applyDefaults_def Let_def Nanosecond_def Second_def
          BackoffFixed_def BackoffExponential_def)
  have "computeDelay (idleRuntime 7) 0 (applyDefaults o1) 0 = (Panics, 0)"
    using computeDelay_panics[of o1 0 "idleRuntime 7" 0] by (simp add: o1_def)
  moreover have "computeDelay (idleRuntime 7) 4 (applyDefaults o2) 0 = (Panics, 0)"
    using computeDelay_panics[of o2 4 "idleRuntime 7" 0] by (simp add: o2_def Second_def)
  moreover have "computeDelay (idleRuntime 7) 0 (applyDefaults o3) 0 = (Panics, 0)"
    using computeDelay_panics[of o3 0 "idleRuntime 7" 0]
    by (simp add: o3_def Second_def minDuration_def)
  ultimately show ?thesis unfolding same by (simp add: o1_def o2_def o3_def)
qed

text \<open>
  The same panic is reached through the wrap-around: with the default initial delay,
  exponential backoff and jitter, the delay at attempt 37 is negative.
\<close>

lemma computeDelay_wrapped_panics:
  "computeDelay rt 37 \<lparr>MaxAttempts = 40, InitialDelay = 100 * Millisecond,
        MaxDelay = 5 * Second, Backoff = BackoffExponential, Jitter = True\<rparr> s = (Panics, s)"
  by (simp add: computeDelay_def backoffDelay_def shiftOne_def wrap64_def rand_Int63n_def quo_def
      Millisecond_def Second_def BackoffExponential_def BackoffFixed_def BackoffLinear_def Let_def)

section \<open>Properties of Retry\<close>

text \<open>
  An operation that counts its invocations (\<open>calls\<close>) and fails each time, under a context
  that is never cancelled: if every delay computation returns and neither it nor the wait
  touches the counter, the loop returns the error of an invocation that left the world it
  returns, the last one, and the counter has advanced by the number of attempts left.
\<close>

lemma Retry_loop_exhausts:
  fixes nxt :: "('r, 's) Handler" and calls :: "'s \<Rightarrow> nat"
  assumes live: "\<forall>w. ctxErr ctx w = None"
    and fails: "\<forall>w. \<exists>r e w'. nxt ctx w = (Returns (r, Some e), w') \<and> calls w' = calls w + 1"
    and delay: "\<forall>a w. \<exists>d w'. computeDelay rt a os w = (Returns d, w') \<and> calls w' = calls w"
    and wait: "\<forall>d w. calls (timer_wait rt d w) = calls w"
    and "attempt < MaxAttempts os"
  shows "\<exists>wl r e w'. Retry_loop rt os nxt ctx attempt lastErr w = (Returns (None, Some e), w')
            \<and> nxt ctx wl = (Returns (r, Some e), w')
            \<and> calls w' = calls w + nat (MaxAttempts os - attempt)"
  using assms(5)
proof (induction "nat (MaxAttempts os - attempt)" arbitrary: attempt lastErr w)
  case 0
  then show ?case by simp
next
  case (Suc n)
  obtain r e w1 where c1: "nxt ctx w = (Returns (r, Some e), w1)" "calls w1 = calls w + 1"
    using fails by blast
  show ?case
  proof (cases "attempt = MaxAttempts os - 1")
    case True
    then have "Retry_loop rt os nxt ctx attempt lastErr w = (Returns (None, Some e), w1)"
      using Suc.prems live c1 by (subst Retry_loop.simps) simp
    moreover have "nat (MaxAttempts os - attempt) = 1" using True by simp
    ultimately show ?thesis using c1 by auto
  next
    case False
    obtain d w2 where c2: "computeDelay rt attempt os w1 = (Returns d, w2)" "calls w2 = calls w1"
      using delay by blast
    define w3 where "w3 = timer_wait rt d w2"
    have c3: "calls w3 = calls w + 1" using c1 c2 wait by (simp add: w3_def)
    have step: "Retry_loop rt os nxt ctx attempt lastErr w
                  = Retry_loop rt os nxt ctx (attempt + 1) (Some e) w3"
      using Suc.prems live c1 c2 False
      by (subst Retry_loop.simps) (simp add: w3_def Let_def)
    have n: "n = nat (MaxAttempts os - (attempt + 1))" using Suc.hyps(2) by simp
    have lt: "attempt + 1 < MaxAttempts os" using Suc.prems False by simp
    obtain wl r' e' w' where
      "Retry_loop rt os nxt ctx (attempt + 1) (Some e) w3 = (Returns (None, Some e'), w')"
      "nxt ctx wl = (Returns (r', Some e'), w')"
      "calls w' = calls w3 + nat (MaxAttempts os - (attempt + 1))"
      using Suc.hyps(1)[OF n lt, of "Some e" w3] by blast
    moreover have "Suc (nat (MaxAttempts os - (attempt + 1))) = nat (MaxAttempts os - attempt)"
      using lt by simp
    ultimately show ?thesis using step c3 by (metis add.assoc plus_1_eq_Suc)
  qed
qed

lemma Retry_exhausts_without_jitter:
  fixes nxt :: "('r, 's) Handler" and calls :: "'s \<Rightarrow> nat"
  assumes "1 \<le> MaxAttempts (applyDefaults options)" and "\<not> Jitter options"
    and live: "\<forall>w. ctxErr ctx w = None"
    and fails: "\<forall>w. \<exists>r e w'. nxt ctx w = (Returns (r, Some e), w') \<and> calls w' = calls w + 1"
    and wait: "\<forall>d w. calls (timer_wait rt d w) = calls w"
  shows "\<exists>wl r e w'. Retry rt options nxt ctx w = (Returns (None, Some e), w')
            \<and> nxt ctx wl = (Returns (r, Some e), w')
            \<and> calls w' = calls w + nat (MaxAttempts (applyDefaults options))"
proof -
  have "\<not> Jitter (applyDefaults options)" using assms(2) by (simp add: applyDefaults_def Let_def)
  then have delay: "\<forall>a w. \<exists>d w'. computeDelay rt a (applyDefaults options) w = (Returns d, w')
                      \<and> calls w' = calls w"
    by (simp add: computeDelay_no_jitter)
  have "0 < MaxAttempts (applyDefaults options)" using assms(1) by simp
  then show ?thesis
    using Retry_loop_exhausts[where nxt = nxt and ctx = ctx and calls = calls and rt = rt
        and os = "applyDefaults options" and attempt = 0 and lastErr = None and w = w]
      live fails delay wait
    by (simp add: Retry_def)
qed

lemma Retry_early_loop_exhausts:
  fixes nxt :: "('r, 's) Handler" and calls :: "'s \<Rightarrow> nat"
  assumes fails: "\<forall>w. \<exists>r e w'. nxt ctx w = (Returns (r, Some e), w') \<and> calls w' = calls w + 1"
    and sleep: "\<forall>d w. calls (time_Sleep rt d w) = calls w"
    and "i < maxAttempts"
  shows "\<exists>wl r e w'. Retry_early_loop rt maxAttempts nxt ctx i delay w = (Returns (None, Some e), w')
            \<and> nxt ctx wl = (Returns (r, Some e), w')
            \<and> calls w' = calls w + nat (maxAttempts - i)"
  using assms(3)
proof (induction "nat (maxAttempts - i)" arbitrary: i delay w)
  case 0
  then show ?case by simp
next
  case (Suc n)
  obtain r e w1 where c1: "nxt ctx w = (Returns (r, Some e), w1)" "calls w1 = calls w + 1"
    using fails by blast
  show ?case
  proof (cases "i = maxAttempts - 1")
    case True
    then have "Retry_early_loop rt maxAttempts nxt ctx i delay w = (Returns (None, Some e), w1)"
      using Suc.prems c1 by (subst Retry_early_loop.simps) simp
    moreover have "nat (maxAttempts - i) = 1" using True by simp
    ultimately show ?thesis using c1 by auto
  next
    case False
    define w2 where "w2 = time_Sleep rt delay w1"
    have c2: "calls w2 = calls w + 1" using c1 sleep by (simp add: w2_def)
    have step: "Retry_early_loop rt maxAttempts nxt ctx i delay w
                  = Retry_early_loop rt maxAttempts nxt ctx (i + 1) (wrap64 (delay * 2)) w2"
      using Suc.prems c1 False by (subst Retry_early_loop.simps) (simp add: w2_def)
    have n: "n = nat (maxAttempts - (i + 1))" using Suc.hyps(2) by simp
    have lt: "i + 1 < maxAttempts" using Suc.prems False by simp
    obtain wl r' e' w' where
      "Retry_early_loop rt maxAttempts nxt ctx (i + 1) (wrap64 (delay * 2)) w2
         = (Returns (None, Some e'), w')"
      "nxt ctx wl = (Returns (r', Some e'), w')"
      "calls w' = calls w2 + nat (maxAttempts - (i + 1))"
      using Suc.hyps(1)[OF n lt, of "wrap64 (delay * 2)" w2] by blast
    moreover have "Suc (nat (maxAttempts - (i + 1))) = nat (maxAttempts - i)"
      using lt by simp
    ultimately show ?thesis using step c2 by (metis add.assoc plus_1_eq_Suc)
  qed
qed

lemma Retry_early_exhausts:
  fixes nxt :: "('r, 's) Handler" and calls :: "'s \<Rightarrow> nat"
  assumes "1 \<le> MaxAttempts_early retryOptions"
    and fails: "\<forall>w. \<exists>r e w'. nxt ctx w = (Returns (r, Some e), w') \<and> calls w' = calls w + 1"
    and sleep: "\<forall>d w. calls (time_Sleep rt d w) = calls w"
  shows "\<exists>wl r e w'. Retry_early rt retryOptions nxt ctx w = (Returns (None, Some e), w')
            \<and> nxt ctx wl = (Returns (r, Some e), w')
            \<and> calls w' = calls w + nat (MaxAttempts_early retryOptions)"
proof -
  have "0 < MaxAttempts_early retryOptions" using assms(1) by simp
  then show ?thesis
    using Retry_early_loop_exhausts[where nxt = nxt and ctx = ctx and calls = calls and rt = rt
        and maxAttempts = "MaxAttempts_early retryOptions" and i = 0
        and delay = "Delay retryOptions" and w = w]
      fails sleep
    by (simp add: Retry_early_def)
qed

text \<open>
  Claim C3 says that \<open>Retry\<close>, allowed \<open>n\<close> attempts, invokes an operation that always
  fails exactly \<open>n\<close> times and returns its last error. That holds with jitter disabled
  (\<open>Retry_exhausts_without_jitter\<close>) and for the earlier \<open>Retry\<close> (\<open>Retry_early_exhausts\<close>).
  With jitter enabled and an initial delay of one nanosecond it does not: the delay
  computed after the first failure panics in \<^verbatim>\<open>rand.Int63n\<close>, so \<open>Retry\<close> with three
  attempts allowed, around the operation that counts its invocations and always fails,
  under the context that is never cancelled, panics after one invocation.
\<close>

theorem Retry_panics_after_first_failure:
  "Retry rt \<lparr>MaxAttempts = 3, InitialDelay = Nanosecond, MaxDelay = 5 * Second,
        Backoff = BackoffFixed, Jitter = True\<rparr> failingOp liveCtx 0
   = (Panics, 1)"
  by (simp add: Retry_def applyDefaults_def DefaultRetryOptions_def Let_def Nanosecond_def
      Second_def BackoffFixed_def computeDelay_def backoffDelay_def rand_Int63n_def quo_def
      failingOp_def liveCtx_def)

section \<open>Cancellation at entry\<close>

lemma Retry_cancelled:
  assumes "ctxErr ctx w = Some e" "1 \<le> MaxAttempts (applyDefaults options)"
  shows "Retry rt options nxt ctx w = (Returns (None, Some e), w)"
  using assms by (simp add: Retry_def)

lemma Retry_no_attempts:
  assumes "MaxAttempts options < 0"
  shows "Retry rt options nxt ctx w = (Returns (None, None), w)"
proof -
  have "MaxAttempts (applyDefaults options) < 0"
    using assms by (simp add: applyDefaults_def Let_def)
  then show ?thesis by (simp add: Retry_def)
qed

lemma Timeout_cancelled:
  assumes "ctxErr ctx w = Some e" "0 \<le> Duration (applyTimeoutDefaults options)"
  shows "Timeout rt options nxt ctx w = (Returns (None, Some e), w)"
  using assms by (simp add: Timeout_def Let_def)

lemma Timeout_disabled:
  assumes "Duration options < 0"
  shows "Timeout rt options nxt = nxt"
  using assms by (simp add: Timeout_def applyTimeoutDefaults_def Let_def)

lemma RateLimit_cancelled:
  assumes "ctxErr ctx w = Some e"
  shows "RateLimit fl time_Now options nxt ctx (b, w) = (Returns (None, Some e), (b, w))"
  using assms by (simp add: RateLimit_def Let_def)

lemma CircuitBreaker_cancelled:
  assumes "ctxErr ctx w = Some e"
  shows "CircuitBreaker nxt ctx (c, w) = (Returns (None, Some e), (c, w))"
  using assms by (simp add: CircuitBreaker_def)

text \<open>
  Claim C7 says that every policy, entered with a cancelled context, returns the context's
  error without invoking the operation. The disabled \<open>Timeout\<close> does not: with a negative
  duration and a cancelled context the operation runs once and its result is returned.
\<close>

theorem Timeout_disabled_runs_cancelled:
  "Timeout (idleRuntime 0) \<lparr>Duration = - 1\<rparr> succeedingOp cancelledCtx 0
     = (Returns (Some 123, None), 1)
   \<and> ctxErr cancelledCtx (0 :: nat) = Some Canceled"
  by (simp add: Timeout_def applyTimeoutDefaults_def Let_def succeedingOp_def cancelledCtx_def)

text \<open>
  Claim C7, as the code has it. Entered in a world where the context's error is \<open>e\<close>,
  \<open>Retry\<close> with at least one attempt allowed, \<open>Timeout\<close> with a duration that is not
  negative, \<open>RateLimit\<close> and \<open>CircuitBreaker\<close> return \<open>(nil, e)\<close> for any wrapped handler
  and leave the world, the bucket and the breaker as they were: the handler has not run,
  no sentinel error is produced and no shared state is touched. The \<open>Timeout\<close> of a
  negative duration is the wrapped handler itself.
\<close>

theorem cancelled_at_entry:
  assumes "ctxErr ctx w = Some e"
  shows "(1 \<le> MaxAttempts (applyDefaults retryOptions) \<longrightarrow>
            Retry rt retryOptions nxt ctx w = (Returns (None, Some e), w))
       \<and> (0 \<le> Duration (applyTimeoutDefaults timeoutOptions) \<longrightarrow>
            Timeout rt timeoutOptions nxt ctx w = (Returns (None, Some e), w))
       \<and> RateLimit fl time_Now rateLimitOptions nxt ctx (b, w)
           = (Returns (None, Some e), (b, w))
       \<and> CircuitBreaker nxt ctx (c, w) = (Returns (None, Some e), (c, w))
       \<and> (Duration timeoutOptions < 0 \<longrightarrow> Timeout rt timeoutOptions nxt ctx w = nxt ctx w)"
  using assms
  by (simp add: Retry_cancelled Timeout_cancelled RateLimit_cancelled CircuitBreaker_cancelled
      Timeout_disabled)

theorem cancelled_at_entry_witness:
  "ctxErr cancelledCtx (0 :: nat) = Some Canceled
   \<and> Retry (idleRuntime 0) \<lparr>MaxAttempts = 3, InitialDelay = 10 * Millisecond, MaxDelay = 0,
        Backoff = BackoffFixed, Jitter = False\<rparr> succeedingOp cancelledCtx 0
       = (Returns (None, Some Canceled), 0)
   \<and> Timeout (idleRuntime 0) \<lparr>Duration = 50 * Millisecond\<rparr> succeedingOp cancelledCtx 0
       = (Returns (None, Some Canceled), 0)
   \<and> RateLimit exactArith (\<lambda>w. 0) \<lparr>Rate = 10, Burst = 10, clock = None\<rparr> succeedingOp
        cancelledCtx (\<lparr>tokens = 0, lastAt = 0\<rparr>, 0)
       = (Returns (None, Some Canceled), (\<lparr>tokens = 0, lastAt = 0\<rparr>, 0))
   \<and> CircuitBreaker succeedingOp cancelledCtx
        ((CircuitBreaker_new (\<lambda>w. 0) DefaultCircuitBreakerOptions)\<lparr>state := CircuitOpen\<rparr>, 0)
       = (Returns (None, Some Canceled),
          ((CircuitBreaker_new (\<lambda>w. 0) DefaultCircuitBreakerOptions)\<lparr>state := CircuitOpen\<rparr>, 0))
   \<and> Timeout (idleRuntime 0) \<lparr>Duration = - 1\<rparr> succeedingOp cancelledCtx 0
       = succeedingOp cancelledCtx 0"
proof -
  have c: "ctxErr cancelledCtx (0 :: nat) = Some Canceled" by (simp add: cancelledCtx_def)
  have m: "1 \<le> MaxAttempts (applyDefaults \<lparr>MaxAttempts = 3, InitialDelay = 10 * Millisecond,
        MaxDelay = 0, Backoff = BackoffFixed, Jitter = False\<rparr>)"
    by (simp add: applyDefaults_def Let_def)
  have d: "0 \<le> Duration (applyTimeoutDefaults \<lparr>Duration = 50 * Millisecond\<rparr>)"
    by (simp add: applyTimeoutDefaults_def Let_def Millisecond_def)
  have n: "Duration \<lparr>Duration = - 1\<rparr> < 0" by simp
  show ?thesis
    using cancelled_at_entry[OF c, where retryOptions = "\<lparr>MaxAttempts = 3,
          InitialDelay = 10 * Millisecond, MaxDelay = 0, Backoff = BackoffFixed, Jitter = False\<rparr>"
        and rt = "idleRuntime 0" and nxt = succeedingOp
        and timeoutOptions = "\<lparr>Duration = 50 * Millisecond\<rparr>"
        and fl = exactArith and time_Now = "\<lambda>w. 0"
        and rateLimitOptions = "\<lparr>Rate = 10, Burst = 10, clock = None\<rparr>"
        and b = "\<lparr>tokens = 0, lastAt = 0\<rparr>"
        and c = "(CircuitBreaker_new (\<lambda>w. 0) DefaultCircuitBreakerOptions)\<lparr>state := CircuitOpen\<rparr>"]
      cancelled_at_entry[OF c, where timeoutOptions = "\<lparr>Duration = - 1\<rparr>"
        and rt = "idleRuntime 0" and nxt = succeedingOp and retryOptions = "\<lparr>MaxAttempts = 3,
          InitialDelay = 10 * Millisecond, MaxDelay = 0, Backoff = BackoffFixed, Jitter = False\<rparr>"
        and fl = exactArith and time_Now = "\<lambda>w. 0"
        and rateLimitOptions = "\<lparr>Rate = 10, Burst = 10, clock = None\<rparr>"
        and b = "\<lparr>tokens = 0, lastAt = 0\<rparr>"
        and c = "(CircuitBreaker_new (\<lambda>w. 0) DefaultCircuitBreakerOptions)\<lparr>state := CircuitOpen\<rparr>"]
      c m d n
    by blast
qed

section \<open>Timeout\<close>

text \<open>
  Claim C9. With a negative duration \<open>Timeout\<close> returns the wrapped handler itself: no
  test of the context, no child context, no race, whatever the runtime. A duration of 0 is
  replaced by the default of 5 seconds before the policy is built, so the policy is the
  one built from 5 seconds.
\<close>

theorem Timeout_disabled_or_default:
  "(Duration options < 0 \<longrightarrow> Timeout rt options nxt = nxt)
   \<and> (Duration options = 0 \<longrightarrow>
        Duration (applyTimeoutDefaults options) = 5 * Second
        \<and> Timeout rt options nxt = Timeout rt \<lparr>Duration = 5 * Second\<rparr> nxt)"
proof -
  have "Timeout rt options nxt = Timeout rt \<lparr>Duration = 5 * Second\<rparr> nxt"
    if "Duration options = 0"
  proof -
    have "applyTimeoutDefaults options = \<lparr>Duration = 5 * Second\<rparr>"
      using that by (cases options) (simp add: applyTimeoutDefaults_def DefaultTimeoutOptions_def)
    moreover have "applyTimeoutDefaults \<lparr>Duration = 5 * Second\<rparr> = \<lparr>Duration = 5 * Second\<rparr>"
      by (simp add: applyTimeoutDefaults_def Second_def)
    ultimately show ?thesis by (simp add: Timeout_def)
  qed
  then show ?thesis
    by (auto simp: Timeout_disabled applyTimeoutDefaults_def DefaultTimeoutOptions_def)
qed

theorem Timeout_disabled_or_default_witness:
  "Duration \<lparr>Duration = - 1\<rparr> < 0
   \<and> Timeout (idleRuntime 0) \<lparr>Duration = - 1\<rparr> succeedingOp = succeedingOp
   \<and> Duration (applyTimeoutDefaults \<lparr>Duration = 0\<rparr>) = 5000000000
   \<and> Timeout (idleRuntime 0) \<lparr>Duration = 0\<rparr> succeedingOp
       = Timeout (idleRuntime 0) \<lparr>Duration = 5 * Second\<rparr> succeedingOp"
  using Timeout_disabled_or_default[of "\<lparr>Duration = - 1\<rparr>" "idleRuntime 0" succeedingOp]
    Timeout_disabled_or_default[of "\<lparr>Duration = 0\<rparr>" "idleRuntime 0" succeedingOp]
  by (simp add: Second_def)

section \<open>Execute\<close>

lemma Execute_loop_take:
  "k \<le> length policies \<Longrightarrow>
   Execute_loop policies k h = foldr (\<lambda>policy inner. policy inner) (take k policies) h"
proof (induction k arbitrary: h)
  case 0
  then show ?case by simp
next
  case (Suc k)
  then have "take (Suc k) policies = take k policies @ [policies ! k]"
    by (simp add: take_Suc_conv_app_nth)
  then show ?case using Suc by simp
qed

text \<open>
  Claim C10. \<open>Execute\<close> with no policy is one call of the handler itself and returns its
  result; with policies it is one call of the composed handler, in which the first policy
  is outermost and the last wraps the handler.
\<close>

theorem Execute_nests_policies:
  "Execute ctx handler [] = handler ctx
   \<and> Execute ctx handler policies = foldr (\<lambda>policy inner. policy inner) policies handler ctx
   \<and> Execute ctx handler (p # ps) = p (foldr (\<lambda>policy inner. policy inner) ps handler) ctx
   \<and> Execute ctx handler [p0, p1, p2] = p0 (p1 (p2 handler)) ctx"
proof -
  have nest: "Execute ctx handler qs = foldr (\<lambda>policy inner. policy inner) qs handler ctx"
    for qs
  proof -
    have "Execute_loop qs (length qs) handler
            = foldr (\<lambda>policy inner. policy inner) (take (length qs) qs) handler"
      by (rule Execute_loop_take) simp
    then show ?thesis by (simp add: Execute_def)
  qed
  have "Execute ctx handler [] = handler ctx"
    using nest[of "[]"] by simp
  moreover have "Execute ctx handler (p # ps)
                   = p (foldr (\<lambda>policy inner. policy inner) ps handler) ctx"
    using nest[of "p # ps"] by simp
  moreover have "Execute ctx handler [p0, p1, p2] = p0 (p1 (p2 handler)) ctx"
    using nest[of "[p0, p1, p2]"] by simp
  ultimately show ?thesis using nest[of policies] by simp
qed

section \<open>The rate limiter in exact arithmetic\<close>

text \<open>
  With the reals in the place of \<^verbatim>\<open>float64\<close>, so that nothing is rounded: a limiter of
  positive rate and burst \<open>B\<close>, under a clock that stands still and a context that is never
  cancelled, admits \<open>B\<close> calls, each taking one token and returning the operation's
  outcome, and rejects the next with \<open>ErrRateLimitExceeded\<close>, bucket and world untouched;
  once the clock has advanced by a duration \<open>d\<close> with \<open>d\<close> seconds times the rate equal
  to 1, one call is admitted and the next rejected. What the limiter does in \<^verbatim>\<open>float64\<close>
  depends on the rounding of each operation, which is not part of this development.
\<close>

lemma exact_resolved:
  assumes "0 < Rate options" "1 \<le> Burst options"
  shows "Rate (applyRateLimitDefaults exactArith time_Now options) = Rate options"
    and "Burst (applyRateLimitDefaults exactArith time_Now options) = Burst options"
    and "clock (applyRateLimitDefaults exactArith time_Now options)
           = Some (case clock options of None \<Rightarrow> time_Now | Some clk \<Rightarrow> clk)"
  using assms
  by (auto simp: applyRateLimitDefaults_def exactArith_def Let_def split: option.split)

lemma exact_admits:
  fixes nxt :: "('r, 's) Handler"
  assumes "0 < Rate options" "1 \<le> Burst options"
    and "clk = (case clock options of None \<Rightarrow> time_Now | Some c \<Rightarrow> c)"
    and "ctxErr ctx w = None" "clk w = lastAt b" "tokens b = of_int k" "1 \<le> k" "k \<le> Burst options"
  shows "RateLimit exactArith time_Now options nxt ctx (b, w)
           = (fst (nxt ctx w), (b\<lparr>tokens := of_int (k - 1)\<rparr>, snd (nxt ctx w)))"
proof -
  have z: "time_Sub (lastAt b) (lastAt b) = 0"
    by (simp add: time_Sub_def minDuration_def maxDuration_def)
  have ge: "(1::real) \<le> of_int k" using assms(7) by simp
  have le: "\<not> (of_int (Burst options) :: real) < of_int k" using assms(8) by simp
  have b: "\<lparr>tokens = of_int k - 1, lastAt = lastAt b\<rparr> = b\<lparr>tokens := of_int (k - 1)\<rparr>"
    by (cases b) simp
  show ?thesis
    using assms(4-6) z ge le b exact_resolved[OF assms(1,2), of time_Now]
    by (simp add: RateLimit_def allow_def Let_def exactArith_def assms(3)[symmetric]
        split: prod.split)
qed

lemma exact_rejects:
  fixes nxt :: "('r, 's) Handler"
  assumes "0 < Rate options" "1 \<le> Burst options"
    and "clk = (case clock options of None \<Rightarrow> time_Now | Some c \<Rightarrow> c)"
    and "ctxErr ctx w = None" "clk w = lastAt b" "tokens b = 0"
  shows "RateLimit exactArith time_Now options nxt ctx (b, w)
           = (Returns (None, Some ErrRateLimitExceeded), (b, w))"
proof -
  have z: "time_Sub (lastAt b) (lastAt b) = 0"
    by (simp add: time_Sub_def minDuration_def maxDuration_def)
  have b: "\<lparr>tokens = 0, lastAt = lastAt b\<rparr> = b" using assms(6) by (cases b) simp
  show ?thesis
    using assms(2,4-6) z b exact_resolved[OF assms(1,2), of time_Now]
    by (simp add: RateLimit_def allow_def Let_def exactArith_def assms(3)[symmetric])
qed

lemma exact_refills_one:
  fixes nxt :: "('r, 's) Handler"
  assumes "0 < Rate options" "1 \<le> Burst options"
    and "clk = (case clock options of None \<Rightarrow> time_Now | Some c \<Rightarrow> c)"
    and "ctxErr ctx w = None" "tokens b = 0"
    and "clk w - lastAt b = d" "0 < d" "d \<le> maxDuration"
    and "of_int d / 1000000000 * Rate options = 1"
  shows "RateLimit exactArith time_Now options nxt ctx (b, w)
           = (fst (nxt ctx w), (\<lparr>tokens = 0, lastAt = clk w\<rparr>, snd (nxt ctx w)))"
proof -
  have d: "time_Sub (clk w) (lastAt b) = d"
    using assms(6-8) by (simp add: time_Sub_def minDuration_def maxDuration_def)
  have le: "\<not> (of_int (Burst options) :: real) < 1" using assms(2) by simp
  show ?thesis
    using assms(4,5,9) d le exact_resolved[OF assms(1,2), of time_Now]
    by (simp add: RateLimit_def allow_def Let_def exactArith_def assms(3)[symmetric]
        split: prod.split)
qed

lemma exact_burst_run:
  fixes nxt :: "('r, 's) Handler"
  assumes "0 < Rate options" "1 \<le> Burst options"
    and "clk = (case clock options of None \<Rightarrow> time_Now | Some c \<Rightarrow> c)"
    and live: "\<forall>w. ctxErr ctx w = None"
    and frozen: "clk wa = ta" "\<forall>w. clk w = ta \<longrightarrow> clk (snd (nxt ctx w)) = ta"
    and "int k \<le> Burst options"
  shows "\<exists>w. clk w = ta \<and>
           ((\<lambda>st. snd (RateLimit exactArith time_Now options nxt ctx st)) ^^ k)
              (\<lparr>tokens = of_int (Burst options), lastAt = ta\<rparr>, wa)
           = (\<lparr>tokens = of_int (Burst options - int k), lastAt = ta\<rparr>, w)"
  using assms(7)
proof (induction k)
  case 0
  then show ?case using frozen by simp
next
  case (Suc k)
  then obtain w where w: "clk w = ta"
    "((\<lambda>st. snd (RateLimit exactArith time_Now options nxt ctx st)) ^^ k)
              (\<lparr>tokens = of_int (Burst options), lastAt = ta\<rparr>, wa)
           = (\<lparr>tokens = of_int (Burst options - int k), lastAt = ta\<rparr>, w)"
    by auto
  have "RateLimit exactArith time_Now options nxt ctx
          (\<lparr>tokens = of_int (Burst options - int k), lastAt = ta\<rparr>, w)
        = (fst (nxt ctx w),
           (\<lparr>tokens = of_int (Burst options - int k), lastAt = ta\<rparr>
              \<lparr>tokens := of_int (Burst options - int k - 1)\<rparr>, snd (nxt ctx w)))"
    by (rule exact_admits[where clk = clk]) (use assms(1-3) live w Suc.prems in auto)
  moreover have "Burst options - int k - 1 = Burst options - int (Suc k)" by simp
  ultimately show ?case using w frozen by auto
qed


lemma RateLimit_burst_exact_arithmetic:
  fixes nxt :: "('r, 's) Handler"
  assumes rate: "0 < Rate options" and burst: "1 \<le> Burst options"
    and clk: "clk = (case clock options of None \<Rightarrow> time_Now | Some c \<Rightarrow> c)"
    and live: "\<forall>w. ctxErr ctx w = None"
    and frozen: "clk w0 = t0" "\<forall>w. clk w = t0 \<longrightarrow> clk (snd (nxt ctx w)) = t0"
  shows "RateLimit_new exactArith time_Now options w0
           = Returns \<lparr>tokens = of_int (Burst options), lastAt = t0\<rparr>"
    and "k < nat (Burst options) \<Longrightarrow>
         \<exists>w. ((\<lambda>st. snd (RateLimit exactArith time_Now options nxt ctx st)) ^^ k)
                (\<lparr>tokens = of_int (Burst options), lastAt = t0\<rparr>, w0)
               = (\<lparr>tokens = of_int (Burst options - int k), lastAt = t0\<rparr>, w)
           \<and> RateLimit exactArith time_Now options nxt ctx
                (\<lparr>tokens = of_int (Burst options - int k), lastAt = t0\<rparr>, w)
               = (fst (nxt ctx w),
                  (\<lparr>tokens = of_int (Burst options - int k - 1), lastAt = t0\<rparr>,
                   snd (nxt ctx w)))"
    and "\<exists>w. ((\<lambda>st. snd (RateLimit exactArith time_Now options nxt ctx st)) ^^ nat (Burst options))
                (\<lparr>tokens = of_int (Burst options), lastAt = t0\<rparr>, w0)
               = (\<lparr>tokens = 0, lastAt = t0\<rparr>, w)
           \<and> RateLimit exactArith time_Now options nxt ctx (\<lparr>tokens = 0, lastAt = t0\<rparr>, w)
               = (Returns (None, Some ErrRateLimitExceeded), (\<lparr>tokens = 0, lastAt = t0\<rparr>, w))"
    and "clk w2 = t0 + d \<Longrightarrow> 0 < d \<Longrightarrow> d \<le> maxDuration
         \<Longrightarrow> of_int d / 1000000000 * Rate options = 1
         \<Longrightarrow> clk (snd (nxt ctx w2)) = t0 + d
         \<Longrightarrow> RateLimit exactArith time_Now options nxt ctx (\<lparr>tokens = 0, lastAt = t0\<rparr>, w2)
               = (fst (nxt ctx w2), (\<lparr>tokens = 0, lastAt = t0 + d\<rparr>, snd (nxt ctx w2)))
           \<and> RateLimit exactArith time_Now options nxt ctx
                (\<lparr>tokens = 0, lastAt = t0 + d\<rparr>, snd (nxt ctx w2))
               = (Returns (None, Some ErrRateLimitExceeded),
                  (\<lparr>tokens = 0, lastAt = t0 + d\<rparr>, snd (nxt ctx w2)))"
proof -
  show "RateLimit_new exactArith time_Now options w0
           = Returns \<lparr>tokens = of_int (Burst options), lastAt = t0\<rparr>"
    using exact_resolved[OF rate burst, of time_Now] frozen(1)
    by (simp add: RateLimit_new_def Let_def clk[symmetric]) (simp add: exactArith_def)
next
  assume k: "k < nat (Burst options)"
  then have "int k \<le> Burst options" by simp
  then obtain w where w: "clk w = t0"
    "((\<lambda>st. snd (RateLimit exactArith time_Now options nxt ctx st)) ^^ k)
                (\<lparr>tokens = of_int (Burst options), lastAt = t0\<rparr>, w0)
               = (\<lparr>tokens = of_int (Burst options - int k), lastAt = t0\<rparr>, w)"
    using exact_burst_run[where options = options and clk = clk and time_Now = time_Now
        and ctx = ctx and nxt = nxt and wa = w0 and ta = t0 and k = k]
      rate burst clk live frozen
    by blast
  have "RateLimit exactArith time_Now options nxt ctx
                (\<lparr>tokens = of_int (Burst options - int k), lastAt = t0\<rparr>, w)
               = (fst (nxt ctx w),
                  (\<lparr>tokens = of_int (Burst options - int k), lastAt = t0\<rparr>
                     \<lparr>tokens := of_int (Burst options - int k - 1)\<rparr>, snd (nxt ctx w)))"
    by (rule exact_admits[where clk = clk]) (use rate burst clk live w k in auto)
  with w show "\<exists>w. ((\<lambda>st. snd (RateLimit exactArith time_Now options nxt ctx st)) ^^ k)
                (\<lparr>tokens = of_int (Burst options), lastAt = t0\<rparr>, w0)
               = (\<lparr>tokens = of_int (Burst options - int k), lastAt = t0\<rparr>, w)
           \<and> RateLimit exactArith time_Now options nxt ctx
                (\<lparr>tokens = of_int (Burst options - int k), lastAt = t0\<rparr>, w)
               = (fst (nxt ctx w),
                  (\<lparr>tokens = of_int (Burst options - int k - 1), lastAt = t0\<rparr>,
                   snd (nxt ctx w)))"
    by auto
next
  have "int (nat (Burst options)) \<le> Burst options" using burst by simp
  then obtain w where w: "clk w = t0"
    "((\<lambda>st. snd (RateLimit exactArith time_Now options nxt ctx st)) ^^ nat (Burst options))
                (\<lparr>tokens = of_int (Burst options), lastAt = t0\<rparr>, w0)
               = (\<lparr>tokens = 0, lastAt = t0\<rparr>, w)"
    using exact_burst_run[where options = options and clk = clk and time_Now = time_Now
        and ctx = ctx and nxt = nxt and wa = w0 and ta = t0 and k = "nat (Burst options)"]
      rate burst clk live frozen
    by auto
  have "RateLimit exactArith time_Now options nxt ctx (\<lparr>tokens = 0, lastAt = t0\<rparr>, w)
               = (Returns (None, Some ErrRateLimitExceeded), (\<lparr>tokens = 0, lastAt = t0\<rparr>, w))"
    by (rule exact_rejects[where clk = clk]) (use rate burst clk live w in auto)
  with w show "\<exists>w. ((\<lambda>st. snd (RateLimit exactArith time_Now options nxt ctx st)) ^^ nat (Burst options))
                (\<lparr>tokens = of_int (Burst options), lastAt = t0\<rparr>, w0)
               = (\<lparr>tokens = 0, lastAt = t0\<rparr>, w)
           \<and> RateLimit exactArith time_Now options nxt ctx (\<lparr>tokens = 0, lastAt = t0\<rparr>, w)
               = (Returns (None, Some ErrRateLimitExceeded), (\<lparr>tokens = 0, lastAt = t0\<rparr>, w))"
    by auto
next
  assume a: "clk w2 = t0 + d" "0 < d" "d \<le> maxDuration"
    "of_int d / 1000000000 * Rate options = 1" "clk (snd (nxt ctx w2)) = t0 + d"
  have "RateLimit exactArith time_Now options nxt ctx (\<lparr>tokens = 0, lastAt = t0\<rparr>, w2)
               = (fst (nxt ctx w2), (\<lparr>tokens = 0, lastAt = clk w2\<rparr>, snd (nxt ctx w2)))"
    by (rule exact_refills_one[where clk = clk and d = d]) (use rate burst clk live a in auto)
  moreover have "RateLimit exactArith time_Now options nxt ctx
                (\<lparr>tokens = 0, lastAt = t0 + d\<rparr>, snd (nxt ctx w2))
               = (Returns (None, Some ErrRateLimitExceeded),
                  (\<lparr>tokens = 0, lastAt = t0 + d\<rparr>, snd (nxt ctx w2)))"
    by (rule exact_rejects[where clk = clk]) (use rate burst clk live a in auto)
  ultimately show "RateLimit exactArith time_Now options nxt ctx (\<lparr>tokens = 0, lastAt = t0\<rparr>, w2)
               = (fst (nxt ctx w2), (\<lparr>tokens = 0, lastAt = t0 + d\<rparr>, snd (nxt ctx w2)))
           \<and> RateLimit exactArith time_Now options nxt ctx
                (\<lparr>tokens = 0, lastAt = t0 + d\<rparr>, snd (nxt ctx w2))
               = (Returns (None, Some ErrRateLimitExceeded),
                  (\<lparr>tokens = 0, lastAt = t0 + d\<rparr>, snd (nxt ctx w2)))"
    using a by simp
qed

end
